theory Spec2Isabelle
  imports Complex_Main "HOL-Library.Sublist"
begin

section \<open>Strings as the C++ code sees them\<close>

text \<open>
  A \<open>std::string\<close> and a \<open>StringVal\<close> carry their length and may hold NUL bytes.
  Wherever the source goes through a \<open>const char*\<close> (\<open>c_str()\<close> handed to a C string
  function, rapidjson's \<open>GetString()\<close> handed to \<open>HasMember\<close>, \<open>operator[]\<close> or to the
  \<open>std::string\<close> constructor), the callee reads up to the first NUL byte only.
\<close>

definition c_str :: "string \<Rightarrow> string" where
  "c_str s = takeWhile (\<lambda>c. c \<noteq> CHR 0x00) s"

text \<open>Case folding of the C locale: only the letters A to Z change.\<close>

definition ascii_tolower :: "char \<Rightarrow> char" where
  "ascii_tolower c =
     (let n = (of_char c :: nat) in if 65 \<le> n \<and> n \<le> 90 then char_of (n + 32) else c)"

definition lower :: "string \<Rightarrow> string" where
  "lower s = map ascii_tolower s"

section \<open>Constants of ai-functions-ir.cc\<close>

definition AI_GENERATE_TXT_JSON_PARSE_ERROR :: string where
  "AI_GENERATE_TXT_JSON_PARSE_ERROR = ''Invalid Json''"

definition AI_GENERATE_TXT_INVALID_PROTOCOL_ERROR :: string where
  "AI_GENERATE_TXT_INVALID_PROTOCOL_ERROR = ''Invalid Protocol, use https''"

definition AI_GENERATE_TXT_UNSUPPORTED_ENDPOINT_ERROR :: string where
  "AI_GENERATE_TXT_UNSUPPORTED_ENDPOINT_ERROR = ''Unsupported Endpoint''"

definition AI_GENERATE_TXT_INVALID_PROMPT_ERROR :: string where
  "AI_GENERATE_TXT_INVALID_PROMPT_ERROR = ''Invalid Prompt, cannot be null or empty''"

definition AI_GENERATE_TXT_MSG_OVERRIDE_FORBIDDEN_ERROR :: string where
  "AI_GENERATE_TXT_MSG_OVERRIDE_FORBIDDEN_ERROR =
     ''Invalid override, '' @ [CHR 0x27] @ ''messages'' @ [CHR 0x27] @ '' cannot be overriden''"

definition AI_API_ENDPOINT_PREFIX :: string where
  "AI_API_ENDPOINT_PREFIX = ''https://''"

text \<open>
  \<open>AI_API_ENDPOINT_PREFIX\<close> is declared \<open>static const char*\<close>, so
  \<open>sizeof(AI_API_ENDPOINT_PREFIX)\<close> is the size of a pointer: 8 on the 64-bit targets
  the engine is built for. It is not computed from the text of the prefix.
\<close>

definition sizeof_AI_API_ENDPOINT_PREFIX :: nat where
  "sizeof_AI_API_ENDPOINT_PREFIX = 8"

definition OPEN_AI_AZURE_ENDPOINT :: string where
  "OPEN_AI_AZURE_ENDPOINT = ''openai.azure.com''"

definition OPEN_AI_PUBLIC_ENDPOINT :: string where
  "OPEN_AI_PUBLIC_ENDPOINT = ''api.openai.com''"

definition OPEN_AI_RESPONSE_FIELD_CHOICES :: string where
  "OPEN_AI_RESPONSE_FIELD_CHOICES = ''choices''"

definition OPEN_AI_RESPONSE_FIELD_MESSAGE :: string where
  "OPEN_AI_RESPONSE_FIELD_MESSAGE = ''message''"

definition OPEN_AI_RESPONSE_FIELD_CONTENT :: string where
  "OPEN_AI_RESPONSE_FIELD_CONTENT = ''content''"

definition OPEN_AI_REQUEST_FIELD_CONTENT_TYPE_HEADER :: string where
  "OPEN_AI_REQUEST_FIELD_CONTENT_TYPE_HEADER = ''Content-Type: application/json''"

section \<open>Endpoint validation\<close>

text \<open>
  Modelled from the spec: gutil's \<open>strncaseprefix\<close> (gutil/strings/util.h is not among
  the sources). Section 4.1 of the spec: the string begins with the prefix, compared
  case-insensitively. The arguments are those of the call: the haystack as a C string,
  its size, the needle, and the number of characters of the needle to compare. The
  result \<open>True\<close> stands for a non-null pointer.
\<close>

definition strncaseprefix :: "string \<Rightarrow> nat \<Rightarrow> string \<Rightarrow> nat \<Rightarrow> bool" where
  "strncaseprefix haystack haystack_size needle needle_size =
     (if needle_size > haystack_size then False
      else lower (take needle_size (c_str haystack)) = lower (take needle_size (c_str needle)))"

definition is_api_endpoint_valid :: "string \<Rightarrow> bool" where
  "is_api_endpoint_valid endpoint =
     strncaseprefix endpoint (length endpoint) AI_API_ENDPOINT_PREFIX
       sizeof_AI_API_ENDPOINT_PREFIX"

text \<open>
  Modelled from the spec: gutil's \<open>gstrcasestr\<close> (gutil/strings/util.h is not among the
  sources). Section 4.1 of the spec: a case-insensitive substring match. Both arguments
  are C strings; the function below scans the positions of the haystack it is given.
\<close>

fun strcasestr_from :: "string \<Rightarrow> string \<Rightarrow> bool" where
  "strcasestr_from [] needle = (needle = [])"
| "strcasestr_from (c # cs) needle =
     (if lower (take (length needle) (c # cs)) = lower needle then True
      else strcasestr_from cs needle)"

definition gstrcasestr :: "string \<Rightarrow> string \<Rightarrow> bool" where
  "gstrcasestr haystack needle = strcasestr_from (c_str haystack) (c_str needle)"

definition is_api_endpoint_supported :: "string \<Rightarrow> bool" where
  "is_api_endpoint_supported endpoint =
     (gstrcasestr endpoint OPEN_AI_AZURE_ENDPOINT
      \<or> gstrcasestr endpoint OPEN_AI_PUBLIC_ENDPOINT)"

section \<open>JSON documents\<close>

text \<open>
  A rapidjson value. An object keeps its members in document order and may hold the
  same name twice; a string carries its length and may hold NUL bytes (the text
  \<open>\u0000\<close> of a document is parsed to one). The code never looks inside a number.
\<close>

datatype json =
    JNull
  | JBool bool
  | JNumber rat
  | JString string
  | JArray "json list"
  | JObject "(string \<times> json) list"

text \<open>
  rapidjson states the precondition of an accessor with \<open>RAPIDJSON_ASSERT\<close>:
  \<open>HasMember\<close>, \<open>operator[](name)\<close> and \<open>GetObject\<close> require an object, \<open>Empty\<close> and
  \<open>operator[](index)\<close> an array, \<open>GetString\<close> a string. A call that breaks the
  precondition is a failed assertion (or undefined behaviour when assertions are
  compiled out): the model makes it the value \<open>Inl AssertionFailed\<close>. Reading memory
  that has been freed is undefined behaviour as well: it is the value \<open>Inl UseAfterFree\<close>.
\<close>

datatype fault = AssertionFailed | UseAfterFree

definition bind :: "fault + 'a \<Rightarrow> ('a \<Rightarrow> fault + 'b) \<Rightarrow> fault + 'b" where
  "bind m f = (case m of Inl e \<Rightarrow> Inl e | Inr x \<Rightarrow> f x)"

text \<open>\<open>FindMember\<close> walks the members from the first and stops at the first equal name.\<close>

definition has_member :: "(string \<times> 'v) list \<Rightarrow> string \<Rightarrow> bool" where
  "has_member ms name = (map_of ms name \<noteq> None)"

definition HasMember :: "json \<Rightarrow> string \<Rightarrow> fault + bool" where
  "HasMember v name =
     (case v of JObject ms \<Rightarrow> Inr (has_member ms name) | _ \<Rightarrow> Inl AssertionFailed)"

definition Member :: "json \<Rightarrow> string \<Rightarrow> fault + json" where
  "Member v name =
     (case v of
        JObject ms \<Rightarrow> (case map_of ms name of Some x \<Rightarrow> Inr x | None \<Rightarrow> Inl AssertionFailed)
      | _ \<Rightarrow> Inl AssertionFailed)"

definition IsArray :: "json \<Rightarrow> bool" where
  "IsArray v = (case v of JArray _ \<Rightarrow> True | _ \<Rightarrow> False)"

definition IsObject :: "json \<Rightarrow> bool" where
  "IsObject v = (case v of JObject _ \<Rightarrow> True | _ \<Rightarrow> False)"

definition IsString :: "json \<Rightarrow> bool" where
  "IsString v = (case v of JString _ \<Rightarrow> True | _ \<Rightarrow> False)"

definition Empty :: "json \<Rightarrow> fault + bool" where
  "Empty v = (case v of JArray xs \<Rightarrow> Inr (xs = []) | _ \<Rightarrow> Inl AssertionFailed)"

definition First :: "json \<Rightarrow> fault + json" where
  "First v = (case v of JArray (x # _) \<Rightarrow> Inr x | _ \<Rightarrow> Inl AssertionFailed)"

text \<open>\<open>GetString\<close> returns a \<open>const char*\<close>: what the caller builds from it ends at a NUL.\<close>

definition GetString :: "json \<Rightarrow> fault + string" where
  "GetString v = (case v of JString s \<Rightarrow> Inr (c_str s) | _ \<Rightarrow> Inl AssertionFailed)"

text \<open>\<open>payload[name] = value\<close>: the value of the first member of that name is replaced.\<close>

fun set_member :: "(string \<times> 'v) list \<Rightarrow> string \<Rightarrow> 'v \<Rightarrow> (string \<times> 'v) list" where
  "set_member [] name v = []"
| "set_member ((k, x) # ms) name v =
     (if k = name then (k, v) # ms else (k, x) # set_member ms name v)"

section \<open>Response extraction\<close>

text \<open>
  \<open>AiGenerateTextParseOpenAiResponse\<close>, lines 92 to 116. The conditions are evaluated
  in the order of the source, each \<open>||\<close> stopping at its first true operand. The
  function returns a \<open>std::string\<close> built from \<open>GetString()\<close>.
\<close>

definition AiGenerateTextParseOpenAiResponse :: "json \<Rightarrow> fault + string" where
  "AiGenerateTextParseOpenAiResponse document =
     bind (HasMember document OPEN_AI_RESPONSE_FIELD_CHOICES) (\<lambda>has_choices.
     if \<not> has_choices then Inr [] else
     bind (Member document OPEN_AI_RESPONSE_FIELD_CHOICES) (\<lambda>choices.
     if \<not> IsArray choices then Inr [] else
     bind (Empty choices) (\<lambda>no_choice.
     if no_choice then Inr [] else
     bind (First choices) (\<lambda>firstChoice.
     bind (HasMember firstChoice OPEN_AI_RESPONSE_FIELD_MESSAGE) (\<lambda>has_message.
     if \<not> has_message then Inr [] else
     bind (Member firstChoice OPEN_AI_RESPONSE_FIELD_MESSAGE) (\<lambda>message.
     if \<not> IsObject message then Inr [] else
     bind (HasMember message OPEN_AI_RESPONSE_FIELD_CONTENT) (\<lambda>has_content.
     if \<not> has_content then Inr [] else
     bind (Member message OPEN_AI_RESPONSE_FIELD_CONTENT) (\<lambda>content.
     if \<not> IsString content then Inr [] else
     GetString content))))))))"

section \<open>The call and its collaborators\<close>

text \<open>
  A \<open>StringVal\<close> argument or result: \<open>None\<close> is the null value (\<open>ptr == nullptr\<close>),
  \<open>Some s\<close> holds \<open>len\<close> bytes.
\<close>

type_synonym StringVal = "string option"

definition supplied :: "StringVal \<Rightarrow> bool" where
  "supplied v = (case v of None \<Rightarrow> False | Some s \<Rightarrow> s \<noteq> [])"

definition bytes :: "StringVal \<Rightarrow> string" where
  "bytes v = (case v of None \<Rightarrow> [] | Some s \<Rightarrow> s)"

text \<open>
  The status of a collaborator's call. \<open>Error text\<close> carries what the source reads
  from a failed status: \<open>status.msg().msg()\<close> of the keystore, \<open>status.ToString()\<close> of
  the transport.
\<close>

datatype Status = OK | Error string

text \<open>
  What a call reads from its process and its collaborators: the flags, the default
  key \<open>ai_api_key_\<close>, the keystore, the JSON parser (\<open>None\<close> when \<open>HasParseError()\<close>) and
  writer, the HTTP client, whether a result buffer of a given length can be allocated,
  and the longest string a rapidjson value of this build holds in itself
  (\<open>ShortString::MaxSize\<close>; longer strings live in the allocator of their document).
\<close>

record env =
  FLAGS_ai_endpoint :: string
  FLAGS_ai_model :: string
  ai_api_key :: string
  GetSecretFromKeyStore :: "string \<Rightarrow> Status \<times> string"
  Parse :: "string \<Rightarrow> json option"
  Writer :: "json \<Rightarrow> string"
  PostToURL :: "string \<Rightarrow> string \<Rightarrow> string list \<Rightarrow> Status \<times> string"
  allocation_succeeds :: "nat \<Rightarrow> bool"
  ShortString_MaxSize :: nat

text \<open>\<open>AiFunctions::set_api_key\<close> of the header.\<close>

definition set_api_key :: "string \<Rightarrow> env \<Rightarrow> env" where
  "set_api_key api_key e = e\<lparr>ai_api_key := api_key\<rparr>"

text \<open>The calls a run makes to its collaborators, in order.\<close>

datatype event =
    SecretLookup string
  | ParseOverrides string
  | Post string string "string list"
  | ParseResponse string

text \<open>
  Modelled from the spec: \<open>StringVal::CopyFrom\<close> (udf.cc is not among the sources).
  Sections 3 and 6 of the spec: every failure path produces a string result, and a
  null value comes back only when the buffer of the final successful result cannot be
  allocated. So the copy yields a string value holding the bytes.
\<close>

definition CopyFrom :: "string \<Rightarrow> StringVal" where
  "CopyFrom s = Some s"

text \<open>
  Modelled from the spec: the constructor \<open>StringVal(ctx, len)\<close> (udf.cc is not among
  the sources). Section 6 of the spec: the allocation of the response buffer can fail,
  and then the value is null. \<open>True\<close> stands for a buffer, \<open>False\<close> for \<open>is_null\<close>.
\<close>

definition StringVal_alloc :: "env \<Rightarrow> nat \<Rightarrow> bool" where
  "StringVal_alloc e len = allocation_succeeds e len"

text \<open>How a block of the function ends: with a \<open>return\<close>, a fault, or by going on.\<close>

datatype 'a step = Return StringVal | Abort fault | Continue 'a

text \<open>Lines 127 to 141: the effective endpoint, validated only when supplied.\<close>

definition resolve_endpoint :: "env \<Rightarrow> StringVal \<Rightarrow> string step" where
  "resolve_endpoint e endpoint =
     (if supplied endpoint then
        (let endpoint_str = bytes endpoint in
         if \<not> is_api_endpoint_valid endpoint_str
         then Return (Some AI_GENERATE_TXT_INVALID_PROTOCOL_ERROR)
         else if \<not> is_api_endpoint_supported endpoint_str
         then Return (Some AI_GENERATE_TXT_UNSUPPORTED_ENDPOINT_ERROR)
         else Continue endpoint_str)
      else Continue (FLAGS_ai_endpoint e))"

text \<open>Lines 142 to 159: the headers of the POST request.\<close>

definition request_headers :: "env \<Rightarrow> StringVal \<Rightarrow> event list \<times> string list step" where
  "request_headers e api_key_jceks_secret =
     (if supplied api_key_jceks_secret then
        (let api_key_secret = bytes api_key_jceks_secret in
         case GetSecretFromKeyStore e api_key_secret of
           (Error msg, api_key) \<Rightarrow> ([SecretLookup api_key_secret], Return (CopyFrom msg))
         | (OK, api_key) \<Rightarrow>
             ([SecretLookup api_key_secret],
              Continue [OPEN_AI_REQUEST_FIELD_CONTENT_TYPE_HEADER,
                        ''Authorization: Bearer '' @ api_key]))
      else
        ([], Continue [OPEN_AI_REQUEST_FIELD_CONTENT_TYPE_HEADER,
                       ''Authorization: Bearer '' @ ai_api_key e]))"

text \<open>
  Lines 194 to 207: the loop over the members of the overrides. The payload is an
  object throughout (\<open>SetObject\<close>), so it is kept as its list of members.
  \<open>m.name.GetString()\<close> is a C string; \<open>m.name == "messages"\<close> compares with the length.
  The loop does not look inside a value, so it is written for any kind of value.
\<close>

fun merge_overrides ::
  "(string \<times> 'v) list \<Rightarrow> (string \<times> 'v) list \<Rightarrow> (string \<times> 'v) list step" where
  "merge_overrides payload [] = Continue payload"
| "merge_overrides payload ((name, val) # ms) =
     (if has_member payload (c_str name) then
        (if name = ''messages''
         then Return (Some AI_GENERATE_TXT_MSG_OVERRIDE_FORBIDDEN_ERROR)
         else merge_overrides (set_member payload (c_str name) val) ms)
      else merge_overrides (payload @ [(name, val)]) ms)"

text \<open>Lines 160 to 183: the payload before the overrides.\<close>

definition base_payload :: "env \<Rightarrow> string \<Rightarrow> StringVal \<Rightarrow> (string \<times> json) list" where
  "base_payload e prompt_bytes model =
     [(''model'', JString (if supplied model then bytes model else FLAGS_ai_model e)),
      (''messages'',
        JArray [JObject [(''role'', JString ''user''), (''content'', JString prompt_bytes)]])]"

text \<open>
  Whose memory a value of the payload points to. \<open>payload[name] = m.value\<close> (line 202)
  and \<open>AddMember(m.name, m.value, ...)\<close> (line 205) move a value out of the overrides
  document without copying it: what the value keeps outside itself stays in the pool
  of that document. The values built at lines 161 to 183 point to the arguments of the
  call, to the flags and to the payload's own allocator.
\<close>

datatype origin = Own | Moved

definition own :: "(string \<times> json) list \<Rightarrow> (string \<times> json \<times> origin) list" where
  "own ms = map (\<lambda>(name, v). (name, v, Own)) ms"

definition moved :: "(string \<times> json) list \<Rightarrow> (string \<times> json \<times> origin) list" where
  "moved ms = map (\<lambda>(name, v). (name, v, Moved)) ms"

definition plain :: "(string \<times> json \<times> origin) list \<Rightarrow> (string \<times> json) list" where
  "plain ms = map (\<lambda>(name, v, org). (name, v)) ms"

text \<open>
  What a parsed value keeps in the pool of its document: the characters of a string
  longer than the inline capacity, the elements of a non-empty array, the members of a
  non-empty object. A number, a boolean, null, a short string and an empty array or
  object are held in the value itself.
\<close>

definition pooled :: "nat \<Rightarrow> json \<Rightarrow> bool" where
  "pooled cap v =
     (case v of
        JString s \<Rightarrow> cap < length s
      | JArray xs \<Rightarrow> xs \<noteq> []
      | JObject ms \<Rightarrow> ms \<noteq> []
      | _ \<Rightarrow> False)"

text \<open>
  Line 208 ends the block in which \<open>overrides\<close> is declared (line 186): the document is
  destroyed and its pool is freed. Line 210 then serializes the payload, reading every
  name and value. The read touches freed memory when a value moved out of the overrides
  keeps something in the pool, or when a member added at line 205 has a name too long
  to be held inline. The members added by the loop are those after the two of the base
  payload.
\<close>

definition reads_freed :: "nat \<Rightarrow> (string \<times> json \<times> origin) list \<Rightarrow> bool" where
  "reads_freed cap payload =
     (list_ex (\<lambda>(name, v, org). org = Moved \<and> pooled cap v) payload
      \<or> list_ex (\<lambda>(name, v, org). cap < length name) (drop 2 payload))"

text \<open>Lines 160 to 208: the prompt check, the base payload and the overrides.\<close>

definition request_payload ::
  "env \<Rightarrow> StringVal \<Rightarrow> StringVal \<Rightarrow> StringVal
     \<Rightarrow> event list \<times> (string \<times> json \<times> origin) list step" where
  "request_payload e prompt model params =
     (if \<not> supplied prompt then ([], Return (Some AI_GENERATE_TXT_INVALID_PROMPT_ERROR))
      else
        (let payload = own (base_payload e (bytes prompt) model) in
         if supplied params then
           ([ParseOverrides (bytes params)],
            case Parse e (bytes params) of
              None \<Rightarrow> Return (Some AI_GENERATE_TXT_JSON_PARSE_ERROR)
            | Some (JObject ms) \<Rightarrow> merge_overrides payload (moved ms)
            | Some _ \<Rightarrow> Abort AssertionFailed)
         else ([], Continue payload)))"

text \<open>Lines 214 to 219: the text returned by a dry run.\<close>

definition post_request :: "string \<Rightarrow> string list \<Rightarrow> string \<Rightarrow> string" where
  "post_request endpoint_str headers payload_str =
     endpoint_str @ concat (map (\<lambda>header. CHR 0x0A # header) headers)
       @ CHR 0x0A # payload_str"

text \<open>
  Lines 236 to 254: the response body is parsed from \<open>resp.ToString().c_str()\<close>, a C
  string, and the text is extracted.
\<close>

definition read_response :: "env \<Rightarrow> string \<Rightarrow> event list \<times> (fault + StringVal)" where
  "read_response e resp =
     ([ParseResponse (c_str resp)],
      case Parse e (c_str resp) of
        None \<Rightarrow> Inr (Some AI_GENERATE_TXT_JSON_PARSE_ERROR)
      | Some document \<Rightarrow>
          (case AiGenerateTextParseOpenAiResponse document of
             Inl f \<Rightarrow> Inl f
           | Inr response \<Rightarrow>
               if response = [] then Inr (Some AI_GENERATE_TXT_JSON_PARSE_ERROR)
               else if \<not> StringVal_alloc e (length response) then Inr None
               else Inr (Some response)))"

text \<open>
  \<open>AiGenerateTextInternal\<close>, lines 124 to 255: the blocks in the order of the source.
  The result is the calls made and either a fault or the returned \<open>StringVal\<close>.
  \<open>payload_str\<close> is a \<open>std::string\<close> built from the \<open>const char*\<close> of \<open>stringify_json\<close>.
  The timeout and \<open>set_fail_on_http_error\<close> are settings of the HTTP client, whose
  answer is the status and the body of \<open>PostToURL\<close>. Logging is left out. Between the
  overrides (line 208) and the serialization (line 210) the pool of the overrides is
  freed: a payload that still points into it cannot be serialized.
\<close>

definition AiGenerateTextInternal ::
  "env \<Rightarrow> StringVal \<Rightarrow> StringVal \<Rightarrow> StringVal \<Rightarrow> StringVal \<Rightarrow> StringVal \<Rightarrow> bool
     \<Rightarrow> event list \<times> (fault + StringVal)" where
  "AiGenerateTextInternal e endpoint prompt model api_key_jceks_secret params dry_run =
     (case resolve_endpoint e endpoint of
        Return v \<Rightarrow> ([], Inr v)
      | Abort f \<Rightarrow> ([], Inl f)
      | Continue endpoint_str \<Rightarrow>
     (case request_headers e api_key_jceks_secret of
        (tr1, Return v) \<Rightarrow> (tr1, Inr v)
      | (tr1, Abort f) \<Rightarrow> (tr1, Inl f)
      | (tr1, Continue headers) \<Rightarrow>
     (case request_payload e prompt model params of
        (tr2, Return v) \<Rightarrow> (tr1 @ tr2, Inr v)
      | (tr2, Abort f) \<Rightarrow> (tr1 @ tr2, Inl f)
      | (tr2, Continue payload) \<Rightarrow>
     (if reads_freed (ShortString_MaxSize e) payload then (tr1 @ tr2, Inl UseAfterFree)
      else
     (let payload_str = c_str (Writer e (JObject (plain payload))) in
      if dry_run
      then (tr1 @ tr2, Inr (CopyFrom (post_request endpoint_str headers payload_str)))
      else
        (case PostToURL e endpoint_str payload_str headers of
           (Error msg, resp) \<Rightarrow>
             (tr1 @ tr2 @ [Post endpoint_str payload_str headers], Inr (CopyFrom msg))
         | (OK, resp) \<Rightarrow>
             (case read_response e resp of
                (tr3, r) \<Rightarrow>
                  (tr1 @ tr2 @ Post endpoint_str payload_str headers # tr3, r))))))))"

text \<open>The public entry points, lines 257 to 272.\<close>

definition AiGenerateText ::
  "env \<Rightarrow> StringVal \<Rightarrow> StringVal \<Rightarrow> StringVal \<Rightarrow> StringVal \<Rightarrow> StringVal
     \<Rightarrow> event list \<times> (fault + StringVal)" where
  "AiGenerateText e endpoint prompt model api_key_jceks_secret params =
     AiGenerateTextInternal e endpoint prompt model api_key_jceks_secret params False"

definition AiGenerateText_prompt :: "env \<Rightarrow> StringVal \<Rightarrow> event list \<times> (fault + StringVal)" where
  "AiGenerateText_prompt e prompt = AiGenerateTextInternal e None prompt None None None False"

definition AiGenerateTextDummy :: "env \<Rightarrow> StringVal \<Rightarrow> event list \<times> (fault + StringVal)" where
  "AiGenerateTextDummy e prompt = AiGenerateTextInternal e None prompt None None None False"

section \<open>Vocabulary of the properties\<close>

text \<open>
  The steps that come before the prompt check: an endpoint that is supplied passes both
  predicates, and a credential reference that is supplied is resolved by the keystore.
\<close>

definition endpoint_accepted :: "StringVal \<Rightarrow> bool" where
  "endpoint_accepted endpoint =
     (if supplied endpoint
      then is_api_endpoint_valid (bytes endpoint) \<and> is_api_endpoint_supported (bytes endpoint)
      else True)"

definition credential_resolved :: "env \<Rightarrow> StringVal \<Rightarrow> bool" where
  "credential_resolved e api_key_jceks_secret =
     (if supplied api_key_jceks_secret
      then fst (GetSecretFromKeyStore e (bytes api_key_jceks_secret)) = OK
      else True)"

text \<open>The token of the Authorization header: the resolved secret, or the default key.\<close>

definition bearer_token :: "env \<Rightarrow> StringVal \<Rightarrow> string" where
  "bearer_token e api_key_jceks_secret =
     (if supplied api_key_jceks_secret
      then snd (GetSecretFromKeyStore e (bytes api_key_jceks_secret))
      else ai_api_key e)"

definition effective_endpoint :: "env \<Rightarrow> StringVal \<Rightarrow> string" where
  "effective_endpoint e endpoint =
     (if supplied endpoint then bytes endpoint else FLAGS_ai_endpoint e)"

fun is_Post :: "event \<Rightarrow> bool" where
  "is_Post (Post url body headers) = True"
| "is_Post (SecretLookup name) = False"
| "is_Post (ParseOverrides text) = False"
| "is_Post (ParseResponse text) = False"

fun is_ParseResponse :: "event \<Rightarrow> bool" where
  "is_ParseResponse (ParseResponse text) = True"
| "is_ParseResponse (SecretLookup name) = False"
| "is_ParseResponse (ParseOverrides text) = False"
| "is_ParseResponse (Post url body headers) = False"

definition network_calls :: "event list \<Rightarrow> event list" where
  "network_calls tr = filter is_Post tr"

definition response_parses :: "event list \<Rightarrow> event list" where
  "response_parses tr = filter is_ParseResponse tr"

section \<open>Test doubles for the collaborators\<close>

text \<open>
  Stand-ins for the keystore, the JSON library and the HTTP client, used where a
  property is evaluated on a concrete call. The parser is a table of documents with
  the values rapidjson builds for them.
\<close>

definition mock_GetSecretFromKeyStore :: "string \<Rightarrow> Status \<times> string" where
  "mock_GetSecretFromKeyStore name =
     (if name = ''open-ai-key'' then (OK, ''sk-test'')
      else (Error ''Secret not found in keystore'', []))"

definition good_response :: json where
  "good_response =
     JObject [(''choices'',
       JArray [JObject [(''message'', JObject [(''content'', JString ''hi there'')])]])]"

definition mock_Parse :: "string \<Rightarrow> json option" where
  \<open>mock_Parse = map_of
     [(''[]'', JArray []),
      (''{"temperature":0.5}'', JObject [(''temperature'', JNumber (1 / 2))]),
      (''{"temperature":0.5,"messages":[]}'',
         JObject [(''temperature'', JNumber (1 / 2)), (''messages'', JArray [])]),
      (''{"messages'' @ [CHR 0x5C] @ ''u0000":[]}'', JObject [(''messages'' @ [CHR 0x00], JArray [])]),
      (''{"choices":[{"message":{"content":"hi there"}}]}'', good_response),
      (''{"stop":["x"]}'', JObject [(''stop'', JArray [JString ''x''])]),
      (''{"choices":[]}'', JObject [(''choices'', JArray [])]),
      (''{"choices":[1]}'', JObject [(''choices'', JArray [JNumber 1])])]\<close>

definition hello_payload :: json where
  "hello_payload =
     JObject [(''model'', JString ''gpt-4''),
       (''messages'',
          JArray [JObject [(''role'', JString ''user''), (''content'', JString ''hello'')]])]"

definition hello_payload_text :: string where
  \<open>hello_payload_text = ''{"model":"gpt-4","messages":[{"role":"user","content":"hello"}]}''\<close>

definition replaced_payload :: json where
  "replaced_payload = JObject [(''model'', JString ''gpt-4''), (''messages'', JArray [])]"

definition replaced_payload_text :: string where
  \<open>replaced_payload_text = ''{"model":"gpt-4","messages":[]}''\<close>

definition mock_Writer :: "json \<Rightarrow> string" where
  "mock_Writer j =
     (if j = hello_payload then hello_payload_text
      else if j = replaced_payload then replaced_payload_text
      else ''{}'')"

definition mock_PostToURL :: "string \<Rightarrow> string \<Rightarrow> string list \<Rightarrow> Status \<times> string" where
  \<open>mock_PostToURL url body headers =
     (if url = ''https://api.openai.com/v1/chat/completions''
      then (OK, ''{"choices":[{"message":{"content":"hi there"}}]}'')
      else if url = ''https://api.openai.com/v1/number-choice''
      then (OK, ''{"choices":[1]}'')
      else if url = ''https://api.openai.com/v1/array''
      then (OK, ''[]'')
      else if url = ''https://api.openai.com/v1/no-choice''
      then (OK, ''{"choices":[]}'')
      else (Error ''Remote error: HTTP 500'', []))\<close>

definition mock_env :: env where
  "mock_env =
     \<lparr>FLAGS_ai_endpoint = ''https://api.openai.com/v1/chat/completions'',
      FLAGS_ai_model = ''gpt-4'',
      ai_api_key = [],
      GetSecretFromKeyStore = mock_GetSecretFromKeyStore,
      Parse = mock_Parse,
      Writer = mock_Writer,
      PostToURL = mock_PostToURL,
      allocation_succeeds = (\<lambda>len. True),
      ShortString_MaxSize = 13\<rparr>"

section \<open>Facts about C strings and case folding\<close>

lemma c_str_prefix: "\<exists>rest. s = c_str s @ rest"
  unfolding c_str_def by (metis takeWhile_dropWhile_id)

lemma lower_append: "lower (a @ b) = lower a @ lower b"
  by (simp add: lower_def)

lemma length_lower: "length (lower s) = length s"
  by (simp add: lower_def)

lemma lower_take: "lower (take n s) = take n (lower s)"
  by (simp add: lower_def take_map)

lemma ascii_tolower_NUL: "ascii_tolower c = CHR 0x00 \<longleftrightarrow> c = CHR 0x00"
proof -
  have "char_of (of_char c + 32 :: nat) \<noteq> CHR 0x00" if "65 \<le> (of_char c :: nat)" "(of_char c :: nat) \<le> 90"
  proof
    assume "char_of (of_char c + 32 :: nat) = CHR 0x00"
    then have "(of_char (char_of (of_char c + 32 :: nat)) :: nat) = of_char (CHR 0x00)" by simp
    then have "(of_char c + 32 :: nat) mod 256 = 0" by simp
    with that show False by simp
  qed
  moreover have "\<not> 65 \<le> (of_char (CHR 0x00) :: nat)" by simp
  ultimately show ?thesis by (auto simp: ascii_tolower_def Let_def)
qed

lemma lower_https: "lower ''https://'' = ''https://''"
  by code_simp

lemma c_str_https: "c_str ''https://'' = ''https://''"
  by (simp add: c_str_def)

lemma valid_unfold:
  "is_api_endpoint_valid e \<longleftrightarrow> 8 \<le> length e \<and> lower (take 8 (c_str e)) = ''https://''"
  by (auto simp: is_api_endpoint_valid_def strncaseprefix_def sizeof_AI_API_ENDPOINT_PREFIX_def
      AI_API_ENDPOINT_PREFIX_def c_str_https lower_https)

lemma NUL_free_lower: "CHR 0x00 \<notin> set (lower s) \<Longrightarrow> CHR 0x00 \<notin> set s"
proof
  assume a: "CHR 0x00 \<notin> set (lower s)" and b: "CHR 0x00 \<in> set s"
  have "ascii_tolower (CHR 0x00) = CHR 0x00" by (simp add: ascii_tolower_NUL)
  with b have "CHR 0x00 \<in> ascii_tolower ` set s" by (metis imageI)
  then show False using a by (simp add: lower_def)
qed

lemma c_str_append_NUL_free: "CHR 0x00 \<notin> set a \<Longrightarrow> c_str (a @ b) = a @ c_str b"
  by (induction a) (auto simp: c_str_def)

lemma is_api_endpoint_valid_iff:
  "is_api_endpoint_valid e \<longleftrightarrow> prefix ''https://'' (lower e)"
proof
  assume v: "is_api_endpoint_valid e"
  then have eq: "lower (take 8 (c_str e)) = ''https://''"
    by (simp add: valid_unfold)
  then have "length (lower (take 8 (c_str e))) = 8" by simp
  then have l8: "8 \<le> length (c_str e)" by (simp add: length_lower)
  obtain rest where r: "e = c_str e @ rest" using c_str_prefix by blast
  have "lower (c_str e) = lower (take 8 (c_str e)) @ lower (drop 8 (c_str e))"
    by (simp add: lower_append [symmetric])
  moreover have "lower e = lower (c_str e) @ lower rest"
    using r lower_append by metis
  ultimately have "lower e = ''https://'' @ (lower (drop 8 (c_str e)) @ lower rest)"
    using eq by simp
  then show "prefix ''https://'' (lower e)"
    by (rule prefixI)
next
  assume p: "prefix ''https://'' (lower e)"
  then obtain tl where t: "lower e = ''https://'' @ tl" by (auto simp: prefix_def)
  then have "length (lower e) = 8 + length tl" by simp
  then have len: "8 \<le> length e" by (simp add: length_lower)
  have lt: "lower (take 8 e) = ''https://''"
    using t by (simp add: lower_take)
  then have "CHR 0x00 \<notin> set (lower (take 8 e))" by simp
  then have nf: "CHR 0x00 \<notin> set (take 8 e)" by (rule NUL_free_lower)
  have "c_str e = take 8 e @ c_str (drop 8 e)"
    using c_str_append_NUL_free [OF nf, of "drop 8 e"] by simp
  then have "take 8 (c_str e) = take 8 e" using len by simp
  with lt len show "is_api_endpoint_valid e" by (simp add: valid_unfold)
qed

lemma strcasestr_from_sublist:
  "strcasestr_from h n \<Longrightarrow> sublist (lower n) (lower h)"
proof (induction h)
  case Nil
  then show ?case by (simp add: lower_def)
next
  case (Cons c cs)
  show ?case
  proof (cases "lower (take (length n) (c # cs)) = lower n")
    case True
    have "lower (c # cs) = lower (take (length n) (c # cs)) @ lower (drop (length n) (c # cs))"
      by (metis append_take_drop_id lower_append)
    with True have "prefix (lower n) (lower (c # cs))" by (metis prefixI)
    then show ?thesis by (rule prefix_imp_sublist)
  next
    case False
    with Cons.prems have "strcasestr_from cs n" by simp
    then have "sublist (lower n) (lower cs)" by (rule Cons.IH)
    then show ?thesis by (simp add: lower_def sublist_Cons_right)
  qed
qed

lemma gstrcasestr_sublist:
  assumes "gstrcasestr e n" and "CHR 0x00 \<notin> set n"
  shows "sublist (lower n) (lower e)"
proof -
  have "c_str n = n" using assms(2) by (induction n) (auto simp: c_str_def)
  with assms(1) have "sublist (lower n) (lower (c_str e))"
    by (simp add: gstrcasestr_def strcasestr_from_sublist)
  then obtain ps ss where 1: "lower (c_str e) = ps @ lower n @ ss"
    by (auto simp: sublist_def)
  obtain rest where "e = c_str e @ rest" using c_str_prefix by blast
  then have "lower e = lower (c_str e) @ lower rest" by (metis lower_append)
  with 1 have "lower e = ps @ lower n @ (ss @ lower rest)" by simp
  then show ?thesis unfolding sublist_def by blast
qed

lemma is_api_endpoint_supported_sublist:
  "is_api_endpoint_supported e \<Longrightarrow>
     sublist ''openai.azure.com'' (lower e) \<or> sublist ''api.openai.com'' (lower e)"
proof -
  have a: "lower ''openai.azure.com'' = ''openai.azure.com''" by code_simp
  have b: "lower ''api.openai.com'' = ''api.openai.com''" by code_simp
  assume "is_api_endpoint_supported e"
  then consider "gstrcasestr e ''openai.azure.com''" | "gstrcasestr e ''api.openai.com''"
    by (auto simp: is_api_endpoint_supported_def OPEN_AI_AZURE_ENDPOINT_def OPEN_AI_PUBLIC_ENDPOINT_def)
  then show ?thesis
  proof cases
    case 1
    then show ?thesis using gstrcasestr_sublist [of e "''openai.azure.com''"] a by simp
  next
    case 2
    then show ?thesis using gstrcasestr_sublist [of e "''api.openai.com''"] b by simp
  qed
qed

lemma c_str_id: "CHR 0x00 \<notin> set s \<Longrightarrow> c_str s = s"
  by (induction s) (auto simp: c_str_def)

section \<open>Facts about the blocks of the call\<close>

lemma request_headers_events:
  "ev \<in> set (fst (request_headers e secret)) \<Longrightarrow> ev = SecretLookup (bytes secret)"
  by (auto simp: request_headers_def Let_def split: if_splits prod.splits Status.splits)

lemma request_payload_events:
  "ev \<in> set (fst (request_payload e prompt model params)) \<Longrightarrow> ev = ParseOverrides (bytes params)"
  by (auto simp: request_payload_def Let_def split: if_splits)

lemma read_response_events: "fst (read_response e resp) = [ParseResponse (c_str resp)]"
  by (simp add: read_response_def)

lemma read_response_trace:
  "read_response e resp = (tr, r) \<Longrightarrow> tr = [ParseResponse (c_str resp)]"
  by (auto simp: read_response_def)

lemma resolve_endpoint_invalid:
  "supplied endpoint \<Longrightarrow> \<not> is_api_endpoint_valid (bytes endpoint) \<Longrightarrow>
     resolve_endpoint e endpoint = Return (Some AI_GENERATE_TXT_INVALID_PROTOCOL_ERROR)"
  by (simp add: resolve_endpoint_def)

lemma resolve_endpoint_unsupported:
  "supplied endpoint \<Longrightarrow> is_api_endpoint_valid (bytes endpoint) \<Longrightarrow>
     \<not> is_api_endpoint_supported (bytes endpoint) \<Longrightarrow>
     resolve_endpoint e endpoint = Return (Some AI_GENERATE_TXT_UNSUPPORTED_ENDPOINT_ERROR)"
  by (simp add: resolve_endpoint_def)

lemma resolve_endpoint_default:
  "\<not> supplied endpoint \<Longrightarrow> resolve_endpoint e endpoint = Continue (FLAGS_ai_endpoint e)"
  by (simp add: resolve_endpoint_def)

lemma post_url:
  assumes "resolve_endpoint e endpoint = Continue endpoint_str"
    and "Post url body headers
           \<in> set (fst (AiGenerateTextInternal e endpoint prompt model secret params dry_run))"
  shows "url = endpoint_str"
proof -
  obtain tr1 h where h: "request_headers e secret = (tr1, h)" by (cases "request_headers e secret")
  obtain tr2 p where p: "request_payload e prompt model params = (tr2, p)"
    by (cases "request_payload e prompt model params")
  have 1: "Post url body headers \<notin> set tr1"
    using request_headers_events [of "Post url body headers" e secret] h by auto
  have 2: "Post url body headers \<notin> set tr2"
    using request_payload_events [of "Post url body headers" e prompt model params] p by auto
  show ?thesis
    using assms 1 2 h p
    by (auto simp: AiGenerateTextInternal_def Let_def dest: read_response_trace
        split: step.splits prod.splits Status.splits if_splits)
qed

lemma resolve_endpoint_accepted:
  "endpoint_accepted endpoint \<Longrightarrow>
     resolve_endpoint e endpoint = Continue (effective_endpoint e endpoint)"
  by (simp add: endpoint_accepted_def resolve_endpoint_def effective_endpoint_def Let_def
      split: if_splits)

lemma request_headers_resolved:
  "credential_resolved e secret \<Longrightarrow>
     request_headers e secret =
       (if supplied secret then [SecretLookup (bytes secret)] else [],
        Continue [''Content-Type: application/json'',
                  ''Authorization: Bearer '' @ bearer_token e secret])"
  by (auto simp: credential_resolved_def request_headers_def bearer_token_def Let_def
      OPEN_AI_REQUEST_FIELD_CONTENT_TYPE_HEADER_def split: prod.splits Status.splits)

lemma request_payload_no_calls:
  "request_payload e prompt model params = (tr2, p) \<Longrightarrow>
     network_calls tr2 = [] \<and> response_parses tr2 = []"
  by (auto simp: request_payload_def Let_def network_calls_def response_parses_def
      split: if_splits)

lemma post_needs_payload:
  assumes "ev \<in> set (fst (AiGenerateTextInternal e endpoint prompt model secret params dry_run))"
    and "is_Post ev"
  shows "\<exists>tr2 payload. request_payload e prompt model params = (tr2, Continue payload)"
proof -
  obtain tr1 h where h: "request_headers e secret = (tr1, h)" by (cases "request_headers e secret")
  obtain tr2 p where p: "request_payload e prompt model params = (tr2, p)"
    by (cases "request_payload e prompt model params")
  have 1: "ev \<notin> set tr1"
    using request_headers_events [of ev e secret] h assms(2) by auto
  have 2: "ev \<notin> set tr2"
    using request_payload_events [of ev e prompt model params] p assms(2) by auto
  show ?thesis
    using assms(1) 1 2 h p
    by (auto simp: AiGenerateTextInternal_def Let_def
        split: step.splits prod.splits Status.splits if_splits)
qed

lemma no_payload_no_post:
  assumes "request_payload e prompt model params = (tr2, Return v)"
  shows "network_calls (fst (AiGenerateTextInternal e endpoint prompt model secret params dry_run))
           = []"
proof -
  have "\<not> is_Post ev"
    if "ev \<in> set (fst (AiGenerateTextInternal e endpoint prompt model secret params dry_run))"
    for ev
    using post_needs_payload [OF that] assms by auto
  then show ?thesis
    by (auto simp: network_calls_def filter_empty_conv)
qed

lemma no_argument: "\<not> supplied None" "endpoint_accepted None" "credential_resolved e None"
  by (simp_all add: supplied_def endpoint_accepted_def credential_resolved_def)

lemma mock_endpoint_accepted:
  "endpoint_accepted (Some ''https://api.openai.com/v1/chat/completions'')"
  by code_simp

lemma mock_credential_resolved: "credential_resolved mock_env (Some ''open-ai-key'')"
  by code_simp

lemma hello_request_payload:
  "request_payload mock_env (Some ''hello'') None None
     = ([], Continue (own [(''model'', JString ''gpt-4''),
          (''messages'',
             JArray [JObject [(''role'', JString ''user''), (''content'', JString ''hello'')]])]))"
  by (simp add: request_payload_def base_payload_def supplied_def bytes_def mock_env_def)

lemma own_reads_nothing_freed: "\<not> reads_freed cap (own (base_payload e p model))"
  by (simp add: reads_freed_def own_def base_payload_def)

lemma plain_own: "plain (own ms) = ms"
  by (induction ms) (auto simp: plain_def own_def)

section \<open>Facts about objects and the merge of the overrides\<close>

lemma has_member_iff: "has_member ms name \<longleftrightarrow> name \<in> fst ` set ms"
  by (simp add: has_member_def map_of_eq_None_iff)

lemma names_set_member: "map fst (set_member ms name v) = map fst ms"
  by (induction ms name v rule: set_member.induct) auto

lemma has_member_set_member: "has_member (set_member ms name v) k = has_member ms k"
proof -
  have "fst ` set (set_member ms name v) = fst ` set ms"
    using names_set_member [of ms name v] by (metis set_map)
  then show ?thesis by (simp add: has_member_iff)
qed

lemma has_member_append:
  "has_member (ms @ [(name, v)]) k \<longleftrightarrow> has_member ms k \<or> k = name"
  by (auto simp: has_member_iff)

lemma c_str_messages: "c_str ''messages'' = ''messages''"
  by (simp add: c_str_def)

lemma merge_overrides_messages:
  "has_member payload ''messages'' \<Longrightarrow> ''messages'' \<in> fst ` set ms \<Longrightarrow>
     merge_overrides payload ms = Return (Some AI_GENERATE_TXT_MSG_OVERRIDE_FORBIDDEN_ERROR)"
proof (induction ms arbitrary: payload)
  case Nil
  then show ?case by simp
next
  case (Cons m ms)
  obtain name v where m: "m = (name, v)" by (cases m)
  show ?case
  proof (cases "name = ''messages''")
    case True
    with Cons.prems(1) m show ?thesis by (simp add: c_str_messages)
  next
    case False
    with Cons.prems(2) m have in_rest: "''messages'' \<in> fst ` set ms" by auto
    show ?thesis
    proof (cases "has_member payload (c_str name)")
      case True
      have "has_member (set_member payload (c_str name) v) ''messages''"
        using Cons.prems(1) by (simp add: has_member_set_member)
      then show ?thesis
        using Cons.IH in_rest True False m by simp
    next
      case no: False
      have "has_member (payload @ [(name, v)]) ''messages''"
        using Cons.prems(1) by (simp add: has_member_append)
      then show ?thesis
        using Cons.IH in_rest no m by simp
    qed
  qed
qed

lemma base_payload_has_messages: "has_member (base_payload e p model) ''messages''"
  by (simp add: base_payload_def has_member_def)

lemma own_payload_has_messages: "has_member (own (base_payload e p model)) ''messages''"
  by (simp add: base_payload_def has_member_def own_def)

lemma names_moved: "fst ` set (moved ms) = fst ` set ms"
  by (force simp: moved_def)

text \<open>The loop keeps the members it starts from in their places and adds after them.\<close>

lemma merge_overrides_appends:
  "merge_overrides payload ms = Continue merged \<Longrightarrow>
     \<exists>added. map fst merged = map fst payload @ added"
proof (induction ms arbitrary: payload)
  case Nil
  then show ?case by simp
next
  case (Cons m ms)
  obtain name v where m: "m = (name, v)" by (cases m)
  show ?case
  proof (cases "has_member payload (c_str name)")
    case True
    with Cons.prems m have "merge_overrides (set_member payload (c_str name) v) ms = Continue merged"
      by (simp split: if_splits)
    from Cons.IH [OF this] show ?thesis by (simp add: names_set_member)
  next
    case False
    with Cons.prems m have "merge_overrides (payload @ [(name, v)]) ms = Continue merged"
      by simp
    from Cons.IH [OF this] show ?thesis by auto
  qed
qed

text \<open>
  For member names without a NUL byte the loop is replace-or-add on the name, and it
  keeps the names of the payload distinct; a name that occurs twice in the overrides
  ends as one member holding the later value.
\<close>

lemma merge_step_without_nul:
  assumes "CHR 0x00 \<notin> set name" and "name \<noteq> ''messages''"
  shows "merge_overrides payload ((name, v) # ms) =
           merge_overrides
             (if has_member payload name then set_member payload name v
              else payload @ [(name, v)]) ms"
  using assms by (simp add: c_str_id)

lemma set_member_value:
  "has_member payload name \<Longrightarrow> map_of (set_member payload name v) name = Some v"
  by (induction payload name v rule: set_member.induct) (auto simp: has_member_def)

lemma merge_keeps_names_distinct:
  assumes "distinct (map fst payload)"
    and "\<forall>m \<in> set ms. CHR 0x00 \<notin> set (fst m)"
    and "merge_overrides payload ms = Continue merged"
  shows "distinct (map fst merged)"
  using assms
proof (induction ms arbitrary: payload)
  case Nil
  then show ?case by simp
next
  case (Cons m ms)
  obtain name v where m: "m = (name, v)" by (cases m)
  have c: "c_str name = name" using Cons.prems(2) m by (simp add: c_str_id)
  have rest: "\<forall>m \<in> set ms. CHR 0x00 \<notin> set (fst m)" using Cons.prems(2) by simp
  show ?case
  proof (cases "has_member payload name")
    case True
    with Cons.prems(3) m c have ne: "name \<noteq> ''messages''" by auto
    with Cons.prems(3) m c True
    have "merge_overrides (set_member payload name v) ms = Continue merged" by simp
    moreover have "distinct (map fst (set_member payload name v))"
      using Cons.prems(1) by (simp add: names_set_member)
    ultimately show ?thesis using Cons.IH rest by blast
  next
    case False
    with Cons.prems(3) m c
    have "merge_overrides (payload @ [(name, v)]) ms = Continue merged" by simp
    moreover have "distinct (map fst (payload @ [(name, v)]))"
      using Cons.prems(1) False by (auto simp: has_member_iff)
    ultimately show ?thesis using Cons.IH rest by blast
  qed
qed

lemma same_key_twice_keeps_last:
  assumes "\<not> has_member payload name" and "CHR 0x00 \<notin> set name"
    and "name \<noteq> ''messages''"
  shows "merge_overrides payload [(name, v), (name, w)] = Continue (payload @ [(name, w)])"
proof -
  have s: "set_member (payload @ [(name, v)]) name w = payload @ [(name, w)]"
    using assms(1) by (induction payload) (auto simp: has_member_def)
  show ?thesis
    using assms s by (simp add: c_str_id has_member_append)
qed

section \<open>The text extracted from a response\<close>

text \<open>
  What \<open>AiGenerateTextParseOpenAiResponse\<close> computes, case by case. The document and
  the first choice are given to \<open>HasMember\<close> without a check of their kind.
\<close>

lemma extraction_cases:
  "AiGenerateTextParseOpenAiResponse document =
     (case document of
        JObject dm \<Rightarrow>
          (case map_of dm ''choices'' of
             Some (JArray (firstChoice # others)) \<Rightarrow>
               (case firstChoice of
                  JObject fm \<Rightarrow>
                    (case map_of fm ''message'' of
                       Some (JObject mm) \<Rightarrow>
                         (case map_of mm ''content'' of
                            Some (JString s) \<Rightarrow> Inr (c_str s)
                          | _ \<Rightarrow> Inr [])
                     | _ \<Rightarrow> Inr [])
                | _ \<Rightarrow> Inl AssertionFailed)
           | _ \<Rightarrow> Inr [])
      | _ \<Rightarrow> Inl AssertionFailed)"
  by (simp add: AiGenerateTextParseOpenAiResponse_def bind_def HasMember_def Member_def
      has_member_def IsArray_def IsObject_def IsString_def Empty_def First_def GetString_def
      OPEN_AI_RESPONSE_FIELD_CHOICES_def OPEN_AI_RESPONSE_FIELD_MESSAGE_def
      OPEN_AI_RESPONSE_FIELD_CONTENT_def
      split: json.splits option.splits list.splits)

lemma content_cut_at_nul:
  "AiGenerateTextParseOpenAiResponse
     (JObject [(''choices'',
        JArray [JObject [(''message'',
          JObject [(''content'', JString (''a'' @ [CHR 0x00] @ ''b''))])]])])
     = Inr ''a''"
  by (simp add: extraction_cases c_str_def)

section \<open>Where a fault or a null value can come from\<close>

lemma fault_sources:
  assumes "snd (AiGenerateTextInternal e endpoint prompt model secret params dry_run) = Inl f"
  shows "(\<exists>overrides. supplied params \<and> Parse e (bytes params) = Some overrides
            \<and> \<not> IsObject overrides)
         \<or> (\<exists>tr2 payload. request_payload e prompt model params = (tr2, Continue payload)
            \<and> reads_freed (ShortString_MaxSize e) payload)
         \<or> (\<exists>resp document. Parse e (c_str resp) = Some document
            \<and> AiGenerateTextParseOpenAiResponse document = Inl f)"
proof -
  obtain tr1 h where h: "request_headers e secret = (tr1, h)" by (cases "request_headers e secret")
  obtain tr2 p where p: "request_payload e prompt model params = (tr2, p)"
    by (cases "request_payload e prompt model params")
  have nh: "h \<noteq> Abort f" for f
    using h by (auto simp: request_headers_def Let_def split: if_splits prod.splits Status.splits)
  have mo: "merge_overrides pl ms \<noteq> Abort f" for pl :: "(string \<times> json \<times> origin) list" and ms f
    by (induction pl ms rule: merge_overrides.induct) auto
  have np: "p = Abort f \<Longrightarrow> \<exists>overrides. supplied params \<and> Parse e (bytes params) = Some overrides
            \<and> \<not> IsObject overrides" for f
    using p mo
    by (auto simp: request_payload_def Let_def IsObject_def
        split: if_splits option.splits json.splits)
  have nr: "read_response e resp = (tr3, Inl f) \<Longrightarrow>
      \<exists>document. Parse e (c_str resp) = Some document
            \<and> AiGenerateTextParseOpenAiResponse document = Inl f" for resp tr3 f
    by (auto simp: read_response_def split: option.splits sum.splits if_splits)
  show ?thesis
    using assms h p nh np nr
    by (auto simp: AiGenerateTextInternal_def Let_def resolve_endpoint_def CopyFrom_def
        split: step.splits prod.splits Status.splits if_splits) blast+
qed

lemma null_only_from_allocation:
  assumes "snd (AiGenerateTextInternal e endpoint prompt model secret params dry_run) = Inr None"
  shows "\<exists>len. \<not> allocation_succeeds e len"
proof -
  obtain tr1 h where h: "request_headers e secret = (tr1, h)" by (cases "request_headers e secret")
  obtain tr2 p where p: "request_payload e prompt model params = (tr2, p)"
    by (cases "request_payload e prompt model params")
  have nh: "h \<noteq> Return None"
    using h by (auto simp: request_headers_def Let_def CopyFrom_def
        split: if_splits prod.splits Status.splits)
  have mo: "merge_overrides pl ms \<noteq> Return None" for pl :: "(string \<times> json \<times> origin) list" and ms
    by (induction pl ms rule: merge_overrides.induct) auto
  have np: "p \<noteq> Return None"
    using p mo
    by (auto simp: request_payload_def Let_def split: if_splits option.splits json.splits)
  have nr: "read_response e resp = (tr3, Inr None) \<Longrightarrow> \<exists>len. \<not> allocation_succeeds e len"
    for resp tr3
    by (auto simp: read_response_def StringVal_alloc_def
        split: option.splits sum.splits if_splits)
  show ?thesis
    using assms h p nh np nr
    by (auto simp: AiGenerateTextInternal_def Let_def resolve_endpoint_def CopyFrom_def
        split: step.splits prod.splits Status.splits if_splits)
qed

section \<open>Runs on the test doubles\<close>

lemma scenario_1_hi_there:
  \<open>AiGenerateTextInternal mock_env None (Some ''hello'') None None None False
     = ([Post ''https://api.openai.com/v1/chat/completions'' hello_payload_text
           [''Content-Type: application/json'', ''Authorization: Bearer ''],
         ParseResponse ''{"choices":[{"message":{"content":"hi there"}}]}''],
        Inr (Some ''hi there''))\<close>
  by code_simp

lemma scenario_5_empty_choices:
  "snd (AiGenerateTextInternal mock_env (Some ''https://api.openai.com/v1/no-choice'')
     (Some ''hello'') None None None False) = Inr (Some ''Invalid Json'')"
  by code_simp

lemma number_choice_response_faults:
  "snd (AiGenerateTextInternal mock_env (Some ''https://api.openai.com/v1/number-choice'')
     (Some ''hello'') None None None False) = Inl AssertionFailed"
  by code_simp

lemma array_response_faults:
  "snd (AiGenerateTextInternal mock_env (Some ''https://api.openai.com/v1/array'')
     (Some ''hello'') None None None False) = Inl AssertionFailed"
  by code_simp

lemma messages_replaced_through_nul_name:
  \<open>AiGenerateTextInternal mock_env None (Some ''hello'') None None
       (Some (''{"messages'' @ [CHR 0x5C] @ ''u0000":[]}'')) True
     = ([ParseOverrides (''{"messages'' @ [CHR 0x5C] @ ''u0000":[]}'')],
        Inr (Some (''https://api.openai.com/v1/chat/completions''
          @ [CHR 0x0A] @ ''Content-Type: application/json''
          @ [CHR 0x0A] @ ''Authorization: Bearer ''
          @ [CHR 0x0A] @ ''{"model":"gpt-4","messages":[]}'')))\<close>
  by code_simp

section \<open>C1: the call can fault\<close>

text \<open>
  C1. The claim is that the call returns a string for every input, in particular when
  the overrides parse as valid JSON that is not an object. The code checks only
  \<open>HasParseError()\<close> before \<open>overrides.GetObject()\<close> (line 194), whose precondition is
  \<open>IsObject()\<close>. So whenever the call reaches the overrides and they parse to an array,
  a number, a string, a boolean or null, the call ends in the fault, not in a string.
\<close>

theorem non_object_overrides_fault:
  assumes "supplied params"
    and "Parse e (bytes params) = Some overrides"
    and "\<not> IsObject overrides"
    and "endpoint_accepted endpoint"
    and "credential_resolved e secret"
    and "supplied prompt"
  shows "snd (AiGenerateTextInternal e endpoint prompt model secret params dry_run)
           = Inl AssertionFailed"
proof -
  have "request_payload e prompt model params
          = ([ParseOverrides (bytes params)], Abort AssertionFailed)"
    using assms(1,2,3,6) by (cases overrides) (simp_all add: request_payload_def IsObject_def)
  then show ?thesis
    using assms(4,5)
    by (simp add: AiGenerateTextInternal_def resolve_endpoint_accepted request_headers_resolved)
qed

theorem non_object_overrides_fault_witness:
  "snd (AiGenerateTextInternal mock_env None (Some ''hello'') None None (Some ''[]'') False)
     = Inl AssertionFailed"
proof -
  have 1: "supplied (Some ''[]'')" "supplied (Some ''hello'')"
    by (simp_all add: supplied_def)
  have 2: "Parse mock_env (bytes (Some ''[]'')) = Some (JArray [])"
    by (simp add: mock_env_def mock_Parse_def bytes_def)
  have 3: "\<not> IsObject (JArray [])"
    by (simp add: IsObject_def)
  show ?thesis
    using non_object_overrides_fault [OF 1(1) 2 3 no_argument(2) no_argument(3) 1(2)]
    by blast
qed

section \<open>C2: endpoint validation comes first\<close>

text \<open>
  C2. A supplied (non-null, non-empty) endpoint is checked before anything else, the
  protocol first and the allow-list second. If its case-folded text does not begin
  with \<open>https://\<close>, the call returns the invalid-protocol string, whatever the host; if
  it does but holds neither \<open>openai.azure.com\<close> nor \<open>api.openai.com\<close> as a contiguous
  part anywhere, the call returns the unsupported-endpoint string. In both cases no
  collaborator has been called. When no endpoint is supplied, the block yields the
  configured default whatever its text is, and every POST of the call goes to it.
\<close>

theorem supplied_endpoint_checked_in_order:
  "(supplied endpoint \<and> \<not> prefix ''https://'' (lower (bytes endpoint)) \<longrightarrow>
      AiGenerateTextInternal e endpoint prompt model secret params dry_run
        = ([], Inr (Some AI_GENERATE_TXT_INVALID_PROTOCOL_ERROR)))
   \<and> (supplied endpoint \<and> prefix ''https://'' (lower (bytes endpoint))
        \<and> \<not> sublist ''openai.azure.com'' (lower (bytes endpoint))
        \<and> \<not> sublist ''api.openai.com'' (lower (bytes endpoint)) \<longrightarrow>
      AiGenerateTextInternal e endpoint prompt model secret params dry_run
        = ([], Inr (Some AI_GENERATE_TXT_UNSUPPORTED_ENDPOINT_ERROR)))
   \<and> (\<not> supplied endpoint \<longrightarrow>
        resolve_endpoint e endpoint = Continue (FLAGS_ai_endpoint e)
        \<and> (\<forall>url body headers.
             Post url body headers
               \<in> set (fst (AiGenerateTextInternal e endpoint prompt model secret params dry_run))
             \<longrightarrow> url = FLAGS_ai_endpoint e))"
proof (intro conjI impI)
  assume a: "supplied endpoint \<and> \<not> prefix ''https://'' (lower (bytes endpoint))"
  then have "\<not> is_api_endpoint_valid (bytes endpoint)"
    by (simp add: is_api_endpoint_valid_iff)
  with a show "AiGenerateTextInternal e endpoint prompt model secret params dry_run
        = ([], Inr (Some AI_GENERATE_TXT_INVALID_PROTOCOL_ERROR))"
    by (simp add: AiGenerateTextInternal_def resolve_endpoint_invalid)
next
  assume a: "supplied endpoint \<and> prefix ''https://'' (lower (bytes endpoint))
        \<and> \<not> sublist ''openai.azure.com'' (lower (bytes endpoint))
        \<and> \<not> sublist ''api.openai.com'' (lower (bytes endpoint))"
  then have v: "is_api_endpoint_valid (bytes endpoint)"
    by (simp add: is_api_endpoint_valid_iff)
  from a have "\<not> is_api_endpoint_supported (bytes endpoint)"
    using is_api_endpoint_supported_sublist by blast
  with a v show "AiGenerateTextInternal e endpoint prompt model secret params dry_run
        = ([], Inr (Some AI_GENERATE_TXT_UNSUPPORTED_ENDPOINT_ERROR))"
    by (simp add: AiGenerateTextInternal_def resolve_endpoint_unsupported)
next
  assume "\<not> supplied endpoint"
  then show "resolve_endpoint e endpoint = Continue (FLAGS_ai_endpoint e)"
    by (rule resolve_endpoint_default)
next
  assume "\<not> supplied endpoint"
  then have "resolve_endpoint e endpoint = Continue (FLAGS_ai_endpoint e)"
    by (rule resolve_endpoint_default)
  then show "\<forall>url body headers.
             Post url body headers
               \<in> set (fst (AiGenerateTextInternal e endpoint prompt model secret params dry_run))
             \<longrightarrow> url = FLAGS_ai_endpoint e"
    using post_url by blast
qed

theorem supplied_endpoint_checked_in_order_witness:
  "AiGenerateTextInternal mock_env (Some ''http://api.openai.com/v1'') (Some ''hello'')
       None None None False
     = ([], Inr (Some AI_GENERATE_TXT_INVALID_PROTOCOL_ERROR))
   \<and> AiGenerateTextInternal mock_env (Some ''https://example.com/v1'') (Some ''hello'')
       None None None False
     = ([], Inr (Some AI_GENERATE_TXT_UNSUPPORTED_ENDPOINT_ERROR))
   \<and> resolve_endpoint (mock_env\<lparr>FLAGS_ai_endpoint := ''http://localhost/''\<rparr>) None
     = Continue ''http://localhost/''"
proof -
  have a: "supplied (Some ''http://api.openai.com/v1'')
      \<and> \<not> prefix ''https://'' (lower (bytes (Some ''http://api.openai.com/v1'')))"
    by code_simp
  have b: "supplied (Some ''https://example.com/v1'')
      \<and> prefix ''https://'' (lower (bytes (Some ''https://example.com/v1'')))
      \<and> \<not> sublist ''openai.azure.com'' (lower (bytes (Some ''https://example.com/v1'')))
      \<and> \<not> sublist ''api.openai.com'' (lower (bytes (Some ''https://example.com/v1'')))"
    by code_simp
  have c: "\<not> supplied None"
    by (simp add: supplied_def)
  have 1: "AiGenerateTextInternal mock_env (Some ''http://api.openai.com/v1'') (Some ''hello'')
       None None None False = ([], Inr (Some AI_GENERATE_TXT_INVALID_PROTOCOL_ERROR))"
    using supplied_endpoint_checked_in_order
      [where endpoint = "Some ''http://api.openai.com/v1''" and e = mock_env] a
    by blast
  have 2: "AiGenerateTextInternal mock_env (Some ''https://example.com/v1'') (Some ''hello'')
       None None None False = ([], Inr (Some AI_GENERATE_TXT_UNSUPPORTED_ENDPOINT_ERROR))"
    using supplied_endpoint_checked_in_order
      [where endpoint = "Some ''https://example.com/v1''" and e = mock_env] b
    by blast
  have 3: "resolve_endpoint (mock_env\<lparr>FLAGS_ai_endpoint := ''http://localhost/''\<rparr>) None
     = Continue (FLAGS_ai_endpoint (mock_env\<lparr>FLAGS_ai_endpoint := ''http://localhost/''\<rparr>))"
    using supplied_endpoint_checked_in_order
      [where endpoint = None and e = "mock_env\<lparr>FLAGS_ai_endpoint := ''http://localhost/''\<rparr>"] c
    by blast
  from 1 2 3 show ?thesis by simp
qed

section \<open>C3: an override of messages is refused\<close>

text \<open>
  C3. If the supplied overrides parse to an object with a member named \<open>messages\<close>, at
  any position and whatever the other members are, nothing is posted. When the call
  reaches the overrides (endpoint accepted, credential resolved, prompt supplied), it
  returns the override-forbidden string, and the only calls it made are the keystore
  lookup, if any, and the parse of the overrides: the payload merged so far is dropped.
\<close>

theorem messages_override_forbidden:
  assumes "supplied params"
    and "Parse e (bytes params) = Some (JObject ms)"
    and "''messages'' \<in> fst ` set ms"
  shows "network_calls (fst (AiGenerateTextInternal e endpoint prompt model secret params dry_run))
           = []
         \<and> (endpoint_accepted endpoint \<and> credential_resolved e secret \<and> supplied prompt \<longrightarrow>
              AiGenerateTextInternal e endpoint prompt model secret params dry_run
                = ((if supplied secret then [SecretLookup (bytes secret)] else [])
                     @ [ParseOverrides (bytes params)],
                   Inr (Some AI_GENERATE_TXT_MSG_OVERRIDE_FORBIDDEN_ERROR)))"
proof -
  have m: "merge_overrides (own (base_payload e (bytes prompt) model)) (moved ms)
          = Return (Some AI_GENERATE_TXT_MSG_OVERRIDE_FORBIDDEN_ERROR)"
    using assms(3) by (simp add: merge_overrides_messages own_payload_has_messages names_moved)
  obtain v where p: "request_payload e prompt model params
          = (if supplied prompt then [ParseOverrides (bytes params)] else [], Return v)"
    and v: "supplied prompt \<Longrightarrow> v = Some AI_GENERATE_TXT_MSG_OVERRIDE_FORBIDDEN_ERROR"
    using assms(1,2) m by (cases "supplied prompt") (simp_all add: request_payload_def)
  have "AiGenerateTextInternal e endpoint prompt model secret params dry_run
      = ((if supplied secret then [SecretLookup (bytes secret)] else [])
           @ [ParseOverrides (bytes params)],
         Inr (Some AI_GENERATE_TXT_MSG_OVERRIDE_FORBIDDEN_ERROR))"
    if "endpoint_accepted endpoint" and "credential_resolved e secret" and "supplied prompt"
    using that p v
    by (simp add: AiGenerateTextInternal_def resolve_endpoint_accepted request_headers_resolved)
  with no_payload_no_post [OF p] show ?thesis by blast
qed

theorem messages_override_forbidden_witness:
  \<open>AiGenerateTextInternal mock_env None (Some ''hello'') None None
       (Some ''{"temperature":0.5,"messages":[]}'') False
     = ([ParseOverrides ''{"temperature":0.5,"messages":[]}''],
        Inr (Some AI_GENERATE_TXT_MSG_OVERRIDE_FORBIDDEN_ERROR))
   \<and> network_calls (fst (AiGenerateTextInternal mock_env None (Some ''hello'') None None
       (Some ''{"temperature":0.5,"messages":[]}'') False)) = []\<close>
proof -
  have 1: \<open>supplied (Some ''{"temperature":0.5,"messages":[]}'')\<close>
    by (simp add: supplied_def)
  have 2: \<open>Parse mock_env (bytes (Some ''{"temperature":0.5,"messages":[]}''))
      = Some (JObject [(''temperature'', JNumber (1 / 2)), (''messages'', JArray [])])\<close>
    by (simp add: mock_env_def mock_Parse_def bytes_def)
  have 3: "''messages'' \<in> fst ` set [(''temperature'', JNumber (1 / 2)), (''messages'', JArray [])]"
    by simp
  have 4: "supplied (Some ''hello'')"
    by (simp add: supplied_def)
  show ?thesis
    using messages_override_forbidden
        [OF 1 2 3, where endpoint = None and secret = None and prompt = "Some ''hello''"
          and model = None and dry_run = False]
      no_argument(2) no_argument(3) [of mock_env] 4
    by (simp add: no_argument bytes_def network_calls_def)
qed

section \<open>C4: extraction faults on a choice that is not an object\<close>

text \<open>
  C4. The claim is that a parsed response gives its \<open>choices[0].message.content\<close> when
  the path exists with the right kinds, and the empty text otherwise. The code calls
  \<open>HasMember\<close> on the first choice (line 104) and on the document (line 94) without
  checking that they are objects: when the first element of \<open>choices\<close> is not an object,
  or the document is not one, the extraction ends in the fault instead of the empty text.
\<close>

theorem non_object_first_choice_fault:
  "(map_of dm ''choices'' = Some (JArray (firstChoice # others)) \<and> \<not> IsObject firstChoice
      \<longrightarrow> AiGenerateTextParseOpenAiResponse (JObject dm) = Inl AssertionFailed)
   \<and> (\<not> IsObject document
      \<longrightarrow> AiGenerateTextParseOpenAiResponse document = Inl AssertionFailed)"
  by (auto simp: extraction_cases IsObject_def split: json.splits)

theorem non_object_first_choice_fault_witness:
  "AiGenerateTextParseOpenAiResponse (JObject [(''choices'', JArray [JNumber 1])])
     = Inl AssertionFailed
   \<and> AiGenerateTextParseOpenAiResponse (JArray []) = Inl AssertionFailed"
proof -
  have 1: "map_of [(''choices'', JArray [JNumber 1])] ''choices'' = Some (JArray (JNumber 1 # []))
      \<and> \<not> IsObject (JNumber 1)"
    by (simp add: IsObject_def)
  have 2: "\<not> IsObject (JArray [])"
    by (simp add: IsObject_def)
  have a: "AiGenerateTextParseOpenAiResponse (JObject [(''choices'', JArray [JNumber 1])])
     = Inl AssertionFailed"
    using non_object_first_choice_fault
      [where dm = "[(''choices'', JArray [JNumber 1])]" and firstChoice = "JNumber 1"
        and others = "[]"] 1
    by blast
  have b: "AiGenerateTextParseOpenAiResponse (JArray []) = Inl AssertionFailed"
    using non_object_first_choice_fault [where document = "JArray []"] 2
    by blast
  from a b show ?thesis by simp
qed

section \<open>C5: a missing prompt\<close>

text \<open>
  C5. In a call whose prompt is null or empty nothing is posted. When the two steps
  before the prompt check pass (a supplied endpoint is valid and supported, a supplied
  credential reference is resolved), the result is the invalid-prompt string, whatever
  the model and the overrides are.
\<close>

theorem empty_prompt_rejected:
  assumes "\<not> supplied prompt"
  shows "network_calls (fst (AiGenerateTextInternal e endpoint prompt model secret params dry_run))
           = []
         \<and> (endpoint_accepted endpoint \<and> credential_resolved e secret \<longrightarrow>
              snd (AiGenerateTextInternal e endpoint prompt model secret params dry_run)
                = Inr (Some AI_GENERATE_TXT_INVALID_PROMPT_ERROR))"
proof -
  have p: "request_payload e prompt model params
          = ([], Return (Some AI_GENERATE_TXT_INVALID_PROMPT_ERROR))"
    using assms by (simp add: request_payload_def)
  have "snd (AiGenerateTextInternal e endpoint prompt model secret params dry_run)
      = Inr (Some AI_GENERATE_TXT_INVALID_PROMPT_ERROR)"
    if "endpoint_accepted endpoint" and "credential_resolved e secret"
    using that p
    by (simp add: AiGenerateTextInternal_def resolve_endpoint_accepted request_headers_resolved)
  with no_payload_no_post [OF p] show ?thesis by blast
qed

theorem empty_prompt_rejected_witness:
  \<open>snd (AiGenerateTextInternal mock_env (Some ''https://api.openai.com/v1/chat/completions'')
       (Some []) (Some ''gpt-4'') (Some ''open-ai-key'') (Some ''{"temperature":0.5}'') False)
     = Inr (Some AI_GENERATE_TXT_INVALID_PROMPT_ERROR)
   \<and> network_calls (fst (AiGenerateTextInternal mock_env
       (Some ''https://api.openai.com/v1/chat/completions'')
       (Some []) (Some ''gpt-4'') (Some ''open-ai-key'') (Some ''{"temperature":0.5}'') False))
     = []\<close>
proof -
  have 1: "\<not> supplied (Some [])"
    by (simp add: supplied_def)
  show ?thesis
    using empty_prompt_rejected [OF 1] mock_endpoint_accepted mock_credential_resolved
    by blast
qed

section \<open>C6: overrides that do not parse\<close>

text \<open>
  C6. If the supplied overrides do not parse as JSON, nothing is posted. When the call
  reaches the overrides (endpoint accepted, credential resolved, prompt supplied), the
  result is the JSON-parse string. A response body that does not parse gives the same
  constant.
\<close>

theorem malformed_overrides_rejected:
  assumes "supplied params"
    and "Parse e (bytes params) = None"
  shows "network_calls (fst (AiGenerateTextInternal e endpoint prompt model secret params dry_run))
           = []
         \<and> (endpoint_accepted endpoint \<and> credential_resolved e secret \<and> supplied prompt \<longrightarrow>
              snd (AiGenerateTextInternal e endpoint prompt model secret params dry_run)
                = Inr (Some AI_GENERATE_TXT_JSON_PARSE_ERROR))
         \<and> (\<forall>resp. Parse e (c_str resp) = None \<longrightarrow>
               snd (read_response e resp) = Inr (Some AI_GENERATE_TXT_JSON_PARSE_ERROR))"
proof -
  obtain v where p: "request_payload e prompt model params
          = (if supplied prompt then [ParseOverrides (bytes params)] else [], Return v)"
    and v: "supplied prompt \<Longrightarrow> v = Some AI_GENERATE_TXT_JSON_PARSE_ERROR"
    using assms by (cases "supplied prompt") (simp_all add: request_payload_def)
  have "snd (AiGenerateTextInternal e endpoint prompt model secret params dry_run)
      = Inr (Some AI_GENERATE_TXT_JSON_PARSE_ERROR)"
    if "endpoint_accepted endpoint" and "credential_resolved e secret" and "supplied prompt"
    using that p v
    by (simp add: AiGenerateTextInternal_def resolve_endpoint_accepted request_headers_resolved)
  moreover have "\<forall>resp. Parse e (c_str resp) = None \<longrightarrow>
               snd (read_response e resp) = Inr (Some AI_GENERATE_TXT_JSON_PARSE_ERROR)"
    by (simp add: read_response_def)
  ultimately show ?thesis using no_payload_no_post [OF p] by blast
qed

theorem malformed_overrides_rejected_witness:
  \<open>snd (AiGenerateTextInternal mock_env None (Some ''hello'') None None
       (Some ''{"temperature":0.5,}'') False)
     = Inr (Some AI_GENERATE_TXT_JSON_PARSE_ERROR)
   \<and> network_calls (fst (AiGenerateTextInternal mock_env None (Some ''hello'') None None
       (Some ''{"temperature":0.5,}'') False))
     = []\<close>
proof -
  have 1: \<open>supplied (Some ''{"temperature":0.5,}'')\<close>
    by (simp add: supplied_def)
  have 2: \<open>Parse mock_env (bytes (Some ''{"temperature":0.5,}'')) = None\<close>
    by (simp add: mock_env_def mock_Parse_def bytes_def)
  have 3: "supplied (Some ''hello'')"
    by (simp add: supplied_def)
  show ?thesis
    using malformed_overrides_rejected [OF 1 2] no_argument(2) no_argument(3) [of mock_env] 3
    by blast
qed

section \<open>Facts about the calls a run records\<close>

lemma secret_lookup_origin:
  assumes "SecretLookup name
             \<in> set (fst (AiGenerateTextInternal e endpoint prompt model secret params dry_run))"
  shows "SecretLookup name \<in> set (fst (request_headers e secret))"
proof -
  obtain tr1 h where h: "request_headers e secret = (tr1, h)" by (cases "request_headers e secret")
  obtain tr2 p where p: "request_payload e prompt model params = (tr2, p)"
    by (cases "request_payload e prompt model params")
  have 2: "SecretLookup name \<notin> set tr2"
    using request_payload_events [of "SecretLookup name" e prompt model params] p by auto
  show ?thesis
    using assms 2 h p
    by (auto simp: AiGenerateTextInternal_def Let_def dest: read_response_trace
        split: step.splits prod.splits Status.splits if_splits)
qed

lemma failed_lookup_returns:
  assumes "SecretLookup name \<in> set (fst (request_headers e secret))"
    and "fst (GetSecretFromKeyStore e name) = Error msg"
  shows "request_headers e secret = ([SecretLookup name], Return (Some msg))"
  using assms
  by (auto simp: request_headers_def Let_def CopyFrom_def split: if_splits prod.splits Status.splits)

lemma failed_post_returns:
  assumes "Post url body headers
             \<in> set (fst (AiGenerateTextInternal e endpoint prompt model secret params dry_run))"
    and "fst (PostToURL e url body headers) = Error msg"
  shows "snd (AiGenerateTextInternal e endpoint prompt model secret params dry_run)
           = Inr (Some msg)
         \<and> response_parses
             (fst (AiGenerateTextInternal e endpoint prompt model secret params dry_run)) = []"
proof -
  obtain tr1 h where h: "request_headers e secret = (tr1, h)" by (cases "request_headers e secret")
  obtain tr2 p where p: "request_payload e prompt model params = (tr2, p)"
    by (cases "request_payload e prompt model params")
  have 1: "\<forall>ev \<in> set tr1. ev = SecretLookup (bytes secret)"
    using request_headers_events [of _ e secret] h by auto
  have 2: "\<forall>ev \<in> set tr2. ev = ParseOverrides (bytes params)"
    using request_payload_events [of _ e prompt model params] p by auto
  have 3: "filter is_ParseResponse tr1 = []" "filter is_ParseResponse tr2 = []"
    using 1 2 by (auto simp: filter_empty_conv)
  show ?thesis
    using assms 1 2 3 h p
    by (auto simp: AiGenerateTextInternal_def Let_def CopyFrom_def response_parses_def
        dest: read_response_trace
        split: step.splits prod.splits Status.splits if_splits)
qed

section \<open>C7: the collaborators' messages pass through\<close>

text \<open>
  C7. If the call looked a secret up and the keystore's status for that name is a
  failure, the call made no other call and its result is exactly the failure's message.
  If the call posted a request and the transport's status for it is an error, the
  result is exactly the error's text and no response body was parsed.
\<close>

theorem collaborator_errors_pass_through:
  "(SecretLookup name
      \<in> set (fst (AiGenerateTextInternal e endpoint prompt model secret params dry_run))
    \<and> fst (GetSecretFromKeyStore e name) = Error msg
    \<longrightarrow> AiGenerateTextInternal e endpoint prompt model secret params dry_run
          = ([SecretLookup name], Inr (Some msg)))
   \<and> (Post url body headers
        \<in> set (fst (AiGenerateTextInternal e endpoint prompt model secret params dry_run))
      \<and> fst (PostToURL e url body headers) = Error msg'
      \<longrightarrow> snd (AiGenerateTextInternal e endpoint prompt model secret params dry_run)
            = Inr (Some msg')
          \<and> response_parses
              (fst (AiGenerateTextInternal e endpoint prompt model secret params dry_run)) = [])"
proof (intro conjI impI)
  assume a: "SecretLookup name
      \<in> set (fst (AiGenerateTextInternal e endpoint prompt model secret params dry_run))
    \<and> fst (GetSecretFromKeyStore e name) = Error msg"
  then have "request_headers e secret = ([SecretLookup name], Return (Some msg))"
    using secret_lookup_origin failed_lookup_returns by blast
  moreover have "\<exists>s. resolve_endpoint e endpoint = Continue s"
    using a by (auto simp: AiGenerateTextInternal_def split: step.splits)
  ultimately show "AiGenerateTextInternal e endpoint prompt model secret params dry_run
          = ([SecretLookup name], Inr (Some msg))"
    by (auto simp: AiGenerateTextInternal_def)
next
  assume a: "Post url body headers
        \<in> set (fst (AiGenerateTextInternal e endpoint prompt model secret params dry_run))
      \<and> fst (PostToURL e url body headers) = Error msg'"
  then show "snd (AiGenerateTextInternal e endpoint prompt model secret params dry_run)
            = Inr (Some msg')"
    using failed_post_returns by blast
next
  assume a: "Post url body headers
        \<in> set (fst (AiGenerateTextInternal e endpoint prompt model secret params dry_run))
      \<and> fst (PostToURL e url body headers) = Error msg'"
  then show "response_parses
              (fst (AiGenerateTextInternal e endpoint prompt model secret params dry_run)) = []"
    using failed_post_returns by blast
qed

theorem collaborator_errors_pass_through_witness:
  "AiGenerateTextInternal mock_env None (Some ''hello'') None (Some ''no-such-key'') None False
     = ([SecretLookup ''no-such-key''], Inr (Some ''Secret not found in keystore''))
   \<and> snd (AiGenerateTextInternal mock_env (Some ''https://api.openai.com/v1/down'')
        (Some ''hello'') None None None False)
     = Inr (Some ''Remote error: HTTP 500'')
   \<and> response_parses (fst (AiGenerateTextInternal mock_env
        (Some ''https://api.openai.com/v1/down'') (Some ''hello'') None None None False))
     = []"
proof -
  have 1: "SecretLookup ''no-such-key''
      \<in> set (fst (AiGenerateTextInternal mock_env None (Some ''hello'') None
           (Some ''no-such-key'') None False))
    \<and> fst (GetSecretFromKeyStore mock_env ''no-such-key'') = Error ''Secret not found in keystore''"
    by code_simp
  have 2: "Post ''https://api.openai.com/v1/down'' hello_payload_text
        [''Content-Type: application/json'', ''Authorization: Bearer '']
      \<in> set (fst (AiGenerateTextInternal mock_env (Some ''https://api.openai.com/v1/down'')
           (Some ''hello'') None None None False))
    \<and> fst (PostToURL mock_env ''https://api.openai.com/v1/down'' hello_payload_text
        [''Content-Type: application/json'', ''Authorization: Bearer ''])
      = Error ''Remote error: HTTP 500''"
    by code_simp
  have a: "AiGenerateTextInternal mock_env None (Some ''hello'') None (Some ''no-such-key'') None False
     = ([SecretLookup ''no-such-key''], Inr (Some ''Secret not found in keystore''))"
    using collaborator_errors_pass_through
      [where e = mock_env and name = "''no-such-key''" and secret = "Some ''no-such-key''"
        and endpoint = None and prompt = "Some ''hello''" and model = None and params = None
        and dry_run = False and msg = "''Secret not found in keystore''"] 1
    by blast
  have b: "snd (AiGenerateTextInternal mock_env (Some ''https://api.openai.com/v1/down'')
        (Some ''hello'') None None None False)
     = Inr (Some ''Remote error: HTTP 500'')
   \<and> response_parses (fst (AiGenerateTextInternal mock_env
        (Some ''https://api.openai.com/v1/down'') (Some ''hello'') None None None False))
     = []"
    using collaborator_errors_pass_through
      [where e = mock_env and url = "''https://api.openai.com/v1/down''"
        and body = hello_payload_text
        and headers = "[''Content-Type: application/json'', ''Authorization: Bearer '']"
        and secret = None
        and endpoint = "Some ''https://api.openai.com/v1/down''" and prompt = "Some ''hello''"
        and model = None and params = None
        and dry_run = False and msg' = "''Remote error: HTTP 500''"] 2
    by blast
  from a b show ?thesis by simp
qed

section \<open>C8: a NUL byte in a member name defeats the merge\<close>

text \<open>
  C8. The claim is that every member of the overrides other than \<open>messages\<close> replaces
  the payload's member of the same name or is added, so that no name occurs twice.
  The code looks the name up as a C string. A member named \<open>messages\<close> followed by a
  NUL byte is not \<open>messages\<close> and the payload has no member of that name, yet its value
  replaces the value of \<open>messages\<close>; and a name with a NUL byte inside that occurs twice
  in the overrides is added twice.
\<close>

theorem nul_in_name_replaces_messages:
  "merge_overrides (base_payload e prompt_bytes model) [(''messages'' @ [CHR 0x00], v)]
     = Continue
         [(''model'', JString (if supplied model then bytes model else FLAGS_ai_model e)),
          (''messages'', v)]
   \<and> merge_overrides (base_payload e prompt_bytes model)
         [(''n'' @ [CHR 0x00], v), (''n'' @ [CHR 0x00], w)]
     = Continue (base_payload e prompt_bytes model
         @ [(''n'' @ [CHR 0x00], v), (''n'' @ [CHR 0x00], w)])"
  by (simp add: base_payload_def has_member_def c_str_def)

section \<open>Facts about the serialization of the payload\<close>

text \<open>The loop does the same to the names and values whatever their origins are.\<close>

lemma names_plain: "map fst (plain p) = map fst p"
  by (induction p) (auto simp: plain_def)

lemma has_member_plain: "has_member (plain p) name = has_member p name"
proof -
  have "fst ` set (plain p) = fst ` set p"
    using names_plain [of p] by (metis set_map)
  then show ?thesis by (simp add: has_member_iff)
qed

lemma plain_set_member: "plain (set_member p name (v, org)) = set_member (plain p) name v"
  by (induction p) (auto simp: plain_def)

lemma merge_overrides_plain:
  "merge_overrides (plain p) (plain ms) =
     (case merge_overrides p ms of
        Continue merged \<Rightarrow> Continue (plain merged)
      | Return r \<Rightarrow> Return r
      | Abort f \<Rightarrow> Abort f)"
proof (induction ms arbitrary: p)
  case Nil
  then show ?case by (simp add: plain_def)
next
  case (Cons m ms)
  obtain name v org where m: "m = (name, v, org)" by (cases m)
  have c: "plain ((name, v, org) # ms) = (name, v) # plain ms"
    by (simp add: plain_def)
  have a: "plain (p @ [(name, v, org)]) = plain p @ [(name, v)]"
    by (simp add: plain_def)
  show ?case
    unfolding m
    using Cons.IH [of "set_member p (c_str name) (v, org)"] Cons.IH [of "p @ [(name, v, org)]"]
    by (simp add: c has_member_plain plain_set_member a)
qed

lemma set_member_holds:
  "has_member payload name \<Longrightarrow> \<exists>k. (k, x) \<in> set (set_member payload name x)"
  by (induction payload name x rule: set_member.induct) (auto simp: has_member_def)

lemma moved_pooled_is_freed:
  "(k, v, Moved) \<in> set payload \<Longrightarrow> pooled cap v \<Longrightarrow> reads_freed cap payload"
  by (auto simp: reads_freed_def list_ex_iff)

lemma single_pooled_override_is_freed:
  assumes "name \<noteq> ''messages''" and "pooled cap v"
  shows "\<exists>payload. merge_overrides (own (base_payload e p model)) (moved [(name, v)])
             = Continue payload \<and> reads_freed cap payload"
proof (cases "has_member (own (base_payload e p model)) (c_str name)")
  case True
  then obtain k where
    "(k, v, Moved) \<in> set (set_member (own (base_payload e p model)) (c_str name) (v, Moved))"
    using set_member_holds [of "own (base_payload e p model)" "c_str name" "(v, Moved)"]
    by auto
  then have "reads_freed cap (set_member (own (base_payload e p model)) (c_str name) (v, Moved))"
    using assms(2) by (rule moved_pooled_is_freed)
  then show ?thesis
    using True assms(1) by (simp add: moved_def)
next
  case False
  have "reads_freed cap (own (base_payload e p model) @ [(name, v, Moved)])"
    using assms(2) by (auto intro: moved_pooled_is_freed)
  then show ?thesis
    using False by (simp add: moved_def)
qed

text \<open>
  When the payload points to nothing of the freed pool, a dry run returns the effective
  endpoint, the two headers and the serialized payload, each on its own line, and
  makes no POST and no parse of a response.
\<close>

lemma dry_run_rendering:
  assumes "dry_run"
    and "endpoint_accepted endpoint"
    and "credential_resolved e secret"
    and "request_payload e prompt model params = (tr2, Continue payload)"
    and "\<not> reads_freed (ShortString_MaxSize e) payload"
  shows "snd (AiGenerateTextInternal e endpoint prompt model secret params dry_run)
           = Inr (Some (effective_endpoint e endpoint
               @ [CHR 0x0A] @ ''Content-Type: application/json''
               @ [CHR 0x0A] @ ''Authorization: Bearer '' @ bearer_token e secret
               @ [CHR 0x0A] @ c_str (Writer e (JObject (plain payload)))))
         \<and> network_calls (fst (AiGenerateTextInternal e endpoint prompt model secret params dry_run))
           = []
         \<and> response_parses (fst (AiGenerateTextInternal e endpoint prompt model secret params dry_run))
           = []"
proof -
  have "AiGenerateTextInternal e endpoint prompt model secret params dry_run
      = ((if supplied secret then [SecretLookup (bytes secret)] else []) @ tr2,
         Inr (CopyFrom (post_request (effective_endpoint e endpoint)
           [''Content-Type: application/json'',
            ''Authorization: Bearer '' @ bearer_token e secret]
           (c_str (Writer e (JObject (plain payload)))))))"
    using assms
    by (simp add: AiGenerateTextInternal_def resolve_endpoint_accepted request_headers_resolved)
  then show ?thesis
    using request_payload_no_calls [OF assms(4)]
    by (simp add: CopyFrom_def post_request_def network_calls_def response_parses_def)
qed

lemma dry_run_without_overrides:
  "snd (AiGenerateTextInternal mock_env None (Some ''hello'') None None None True)
     = Inr (Some (''https://api.openai.com/v1/chat/completions''
         @ [CHR 0x0A] @ ''Content-Type: application/json''
         @ [CHR 0x0A] @ ''Authorization: Bearer ''
         @ [CHR 0x0A] @ hello_payload_text))"
  by code_simp

section \<open>C9: a dry run serializes the payload after the overrides are freed\<close>

text \<open>
  C9. The claim is that every dry run whose payload is assembled returns the endpoint,
  the headers and the serialized payload. The overrides document is declared inside
  the block of lines 185 to 208 and its values are moved, not copied, into the payload;
  the payload is serialized at line 210, after the document and its pool are gone. So
  when the call reaches the overrides and they hold one member, not named \<open>messages\<close>,
  whose value is a non-empty array, a non-empty object or a string too long to be held
  inline, the serialization reads freed memory: the call, dry run or not, ends in the
  fault and not in the rendering.
\<close>

theorem serialization_reads_freed_overrides:
  assumes "supplied params"
    and "Parse e (bytes params) = Some (JObject [(name, v)])"
    and "name \<noteq> ''messages''"
    and "pooled (ShortString_MaxSize e) v"
    and "endpoint_accepted endpoint"
    and "credential_resolved e secret"
    and "supplied prompt"
  shows "snd (AiGenerateTextInternal e endpoint prompt model secret params dry_run)
           = Inl UseAfterFree"
proof -
  obtain payload where
    m: "merge_overrides (own (base_payload e (bytes prompt) model)) (moved [(name, v)])
          = Continue payload"
    and f: "reads_freed (ShortString_MaxSize e) payload"
    using single_pooled_override_is_freed [OF assms(3,4)] by blast
  have "request_payload e prompt model params
          = ([ParseOverrides (bytes params)], Continue payload)"
    using assms(1,2,7) m by (simp add: request_payload_def)
  then show ?thesis
    using assms(5,6) f
    by (simp add: AiGenerateTextInternal_def resolve_endpoint_accepted request_headers_resolved)
qed

theorem serialization_reads_freed_overrides_witness:
  \<open>snd (AiGenerateTextInternal mock_env None (Some ''hello'') None None
       (Some ''{"stop":["x"]}'') True) = Inl UseAfterFree\<close>
proof -
  have 1: \<open>supplied (Some ''{"stop":["x"]}'')\<close> "supplied (Some ''hello'')"
    by (simp_all add: supplied_def)
  have 2: \<open>Parse mock_env (bytes (Some ''{"stop":["x"]}''))
      = Some (JObject [(''stop'', JArray [JString ''x''])])\<close>
    by (simp add: mock_env_def mock_Parse_def bytes_def)
  have 3: "''stop'' \<noteq> ''messages''"
    by simp
  have 4: "pooled (ShortString_MaxSize mock_env) (JArray [JString ''x''])"
    by (simp add: pooled_def)
  show ?thesis
    using serialization_reads_freed_overrides
      [OF 1(1) 2 3 4 no_argument(2) no_argument(3) 1(2)]
    by blast
qed

section \<open>C10: the default key is sent as it is\<close>

text \<open>
  C10. When no credential reference is supplied, the headers are the Content-Type
  header followed by \<open>Authorization: Bearer\<close> and the default key, whatever the key is
  (the key is what \<open>set_api_key\<close> stored last): the block has no test of it. With the
  endpoint accepted and the payload assembled and free of pointers into the freed
  overrides, a call that is not a dry run posts exactly one request, with these
  headers: an empty key gives an empty token and the request is still sent.
\<close>

theorem default_key_sent_unchecked:
  assumes "\<not> supplied secret"
  shows "request_headers e secret
           = ([], Continue [''Content-Type: application/json'',
                            ''Authorization: Bearer '' @ ai_api_key e])
         \<and> (endpoint_accepted endpoint
              \<and> request_payload e prompt model params = (tr2, Continue payload)
              \<and> \<not> reads_freed (ShortString_MaxSize e) payload
              \<and> \<not> dry_run \<longrightarrow>
            network_calls
              (fst (AiGenerateTextInternal e endpoint prompt model secret params dry_run))
              = [Post (effective_endpoint e endpoint)
                   (c_str (Writer e (JObject (plain payload))))
                   [''Content-Type: application/json'',
                    ''Authorization: Bearer '' @ ai_api_key e]])
         \<and> ai_api_key (set_api_key api_key e) = api_key"
proof -
  have h: "request_headers e secret
           = ([], Continue [''Content-Type: application/json'',
                            ''Authorization: Bearer '' @ ai_api_key e])"
    using assms
    by (simp add: request_headers_def OPEN_AI_REQUEST_FIELD_CONTENT_TYPE_HEADER_def)
  have "network_calls (fst (AiGenerateTextInternal e endpoint prompt model secret params dry_run))
           = [Post (effective_endpoint e endpoint)
                (c_str (Writer e (JObject (plain payload))))
                [''Content-Type: application/json'',
                 ''Authorization: Bearer '' @ ai_api_key e]]"
    if a: "endpoint_accepted endpoint"
      and p: "request_payload e prompt model params = (tr2, Continue payload)"
      and f: "\<not> reads_freed (ShortString_MaxSize e) payload"
      and d: "\<not> dry_run"
  proof -
    have n: "network_calls tr2 = []"
      using request_payload_no_calls [OF p] by simp
    show ?thesis
      using a p d f h n
      by (auto simp: AiGenerateTextInternal_def resolve_endpoint_accepted Let_def
          network_calls_def read_response_def
          split: prod.splits Status.splits)
  qed
  with h show ?thesis by (simp add: set_api_key_def)
qed

theorem default_key_sent_unchecked_witness:
  "ai_api_key mock_env = []
   \<and> network_calls (fst (AiGenerateTextInternal mock_env None (Some ''hello'') None None None False))
     = [Post ''https://api.openai.com/v1/chat/completions'' hello_payload_text
          [''Content-Type: application/json'', ''Authorization: Bearer '']]"
proof -
  have f: "\<not> False" by simp
  have r: "\<not> reads_freed (ShortString_MaxSize mock_env) (own [(''model'', JString ''gpt-4''),
          (''messages'',
             JArray [JObject [(''role'', JString ''user''), (''content'', JString ''hello'')]])])"
    by (simp add: reads_freed_def own_def)
  have w: "c_str (Writer mock_env (JObject [(''model'', JString ''gpt-4''),
          (''messages'',
             JArray [JObject [(''role'', JString ''user''), (''content'', JString ''hello'')]])]))
     = hello_payload_text"
    by code_simp
  have k: "ai_api_key mock_env = []" "effective_endpoint mock_env None
     = ''https://api.openai.com/v1/chat/completions''"
    by (simp_all add: effective_endpoint_def supplied_def mock_env_def)
  show ?thesis
    using default_key_sent_unchecked
        [OF no_argument(1), where e = mock_env and endpoint = None and prompt = "Some ''hello''"
          and model = None and params = None and dry_run = False]
      no_argument(2) hello_request_payload r
    by (simp add: w k plain_own)
qed

end
